theory Spec2Isabelle
  imports Complex_Main "HOL-Library.Multiset" "HOL-Library.Sublist"
begin

section \<open>Data model\<close>

text \<open>
  A report is a Firestore document of the collection \<^verbatim>\<open>reports\<close>. The form writes the
  fields \<^verbatim>\<open>pos, title, desc, category, votes, radius, crimeProb, createdAt\<close>; the map
  view adds the document id (\<^verbatim>\<open>{ id: d.id, ...d.data() }\<close>). The fields the view guards
  against being absent (\<^verbatim>\<open>!r.pos\<close>, \<^verbatim>\<open>r.radius ?? 800\<close>, \<^verbatim>\<open>r.crimeProb ?? 50\<close>) are options;
  the fields it reads unguarded are plain. JavaScript numbers that hold counts and metres
  are integers, coordinates are reals, strings are lists of Latin-1 characters.
\<close>

record latlng =
  lat :: real
  lng :: real

record votes =
  up :: int
  down :: int

record report_data =
  pos :: "latlng option"
  title :: string
  desc :: string
  category :: string
  votes :: votes
  radius :: "int option"
  crimeProb :: "int option"
  createdAt :: string

record report = report_data +
  rid :: string

text \<open>\<^verbatim>\<open>snapshot.docs.map((d) => ({ id: d.id, ...d.data() }))\<close>\<close>

definition snapshot_doc :: "string \<times> report_data \<Rightarrow> report" where
  "snapshot_doc d = \<lparr>pos = pos (snd d), title = title (snd d), desc = desc (snd d),
     category = category (snd d), votes = votes (snd d), radius = radius (snd d),
     crimeProb = crimeProb (snd d), createdAt = createdAt (snd d), rid = fst d\<rparr>"

section \<open>Risk score at a clicked point (MapEvents, click)\<close>

text \<open>
  The distance comes from the library function \<^verbatim>\<open>getDistance\<close> of geolib, which returns
  whole metres; it is a parameter \<open>getDistance\<close> of every definition that measures.
\<close>

type_synonym distance = "latlng \<Rightarrow> latlng \<Rightarrow> int"

text \<open>The callback of \<^verbatim>\<open>reports.filter\<close> in the click handler.\<close>

definition covers :: "distance \<Rightarrow> latlng \<Rightarrow> report \<Rightarrow> bool" where
  "covers getDistance click r =
     (case pos r of
        None \<Rightarrow> False
      | Some p \<Rightarrow>
          (let dist = getDistance click p;
               radius = (case radius r of None \<Rightarrow> 800 | Some x \<Rightarrow> x)
           in dist \<le> radius))"

definition nearby :: "distance \<Rightarrow> latlng \<Rightarrow> report list \<Rightarrow> report list" where
  "nearby getDistance click reports = filter (covers getDistance click) reports"

definition score :: "string \<Rightarrow> int" where
  "score cat = (if cat = ''Severe'' then 90 else if cat = ''Moderate'' then 60 else 30)"

text \<open>
  \<^verbatim>\<open>Math.round\<close> gives the nearest integer, a tie going up. The quotient of the two
  integers is taken exactly: the sum is a multiple of 30 and a double holds the quotient
  closely enough that rounding it and rounding the exact value agree.
\<close>

definition Math_round :: "real \<Rightarrow> int" where
  "Math_round x = \<lfloor>x + 1 / 2\<rfloor>"

text \<open>
  The value the click handler of \<^verbatim>\<open>MapEvents\<close> passes to \<^verbatim>\<open>setCenterCrimeRate\<close>. (A
  second listener on the map averages the stored \<^verbatim>\<open>crimeProb\<close> over the same reports; that
  is another statistic and is not part of this definition.)
\<close>

definition MapEvents_click :: "distance \<Rightarrow> latlng \<Rightarrow> report list \<Rightarrow> int" where
  "MapEvents_click getDistance click reports =
     (let nb = nearby getDistance click reports;
          avg = (if length nb > 0
                 then real_of_int (foldl (\<lambda>s r. s + score (category r)) 0 nb) / real (length nb)
                 else 0)
      in Math_round avg)"

text \<open>
  The circle drawn around a report's marker (the callback of \<^verbatim>\<open>filteredReports.map\<close> in
  the render): nothing for a report without a position, and only when the radius toggle
  is on.
\<close>

record circle =
  center :: latlng
  circle_radius :: int
  color :: string

definition marker_circle :: "bool \<Rightarrow> report \<Rightarrow> circle option" where
  "marker_circle showRadius r =
     (case pos r of
        None \<Rightarrow> None
      | Some p \<Rightarrow>
          (let color = (if category r = ''Severe'' then ''#d33''
                        else if category r = ''Moderate'' then ''#e7a61a'' else ''#4caf50'');
               radius = (case radius r of None \<Rightarrow> 300 | Some x \<Rightarrow> x)
           in if showRadius
              then Some \<lparr>center = p, circle_radius = radius, color = color\<rparr>
              else None))"

section \<open>The filtered and sorted view (filteredReports)\<close>

text \<open>
  The state variables of the map view that the projection reads.
\<close>

record view_state =
  searchQuery :: string
  sortMode :: string
  rangeKm :: int
  sortBy :: string
  mapCenter :: "latlng option"

text \<open>
  \<^verbatim>\<open>String.prototype.toLowerCase\<close> on Latin-1 text: the upper-case letters are
  \<^verbatim>\<open>A-Z\<close> and \<^verbatim>\<open>U+00C0-U+00DE\<close> without the multiplication sign, and lowering one sets
  the bit of value 32.
\<close>

fun toLowerCase_char :: "char \<Rightarrow> char" where
  "toLowerCase_char (Char b0 b1 b2 b3 b4 b5 b6 b7) =
     (let n = (of_char (Char b0 b1 b2 b3 b4 b5 b6 b7) :: nat) in
      if (65 \<le> n \<and> n \<le> 90) \<or> (192 \<le> n \<and> n \<le> 222 \<and> n \<noteq> 215)
      then Char b0 b1 b2 b3 b4 True b6 b7
      else Char b0 b1 b2 b3 b4 b5 b6 b7)"

definition toLowerCase :: "string \<Rightarrow> string" where
  "toLowerCase s = map toLowerCase_char s"

text \<open>\<^verbatim>\<open>String.prototype.includes\<close>: the query occurs at some offset of the text.\<close>

fun String_includes :: "string \<Rightarrow> string \<Rightarrow> bool" where
  "String_includes [] q = (q = [])"
| "String_includes (c # cs) q = (prefix q (c # cs) \<or> String_includes cs q)"

text \<open>The callback of the first \<^verbatim>\<open>filter\<close>: the search filter.\<close>

definition matches_search :: "view_state \<Rightarrow> report \<Rightarrow> bool" where
  "matches_search q r =
     (let text = toLowerCase (title r @ '' '' @ desc r)
      in String_includes text (toLowerCase (searchQuery q)))"

text \<open>The callback of the second \<^verbatim>\<open>filter\<close>: the distance filter.\<close>

definition within_range :: "distance \<Rightarrow> view_state \<Rightarrow> report \<Rightarrow> bool" where
  "within_range getDistance q r =
     (if sortMode q = ''nearby''
      then (case mapCenter q of
              None \<Rightarrow> True
            | Some c \<Rightarrow>
                (case pos r of
                   None \<Rightarrow> True
                 | Some p \<Rightarrow> getDistance c p \<le> rangeKm q * 1000))
      else True)"

text \<open>
  The values the comparator handles: a number, an object or function, \<^verbatim>\<open>undefined\<close>, and
  \<^verbatim>\<open>NaN\<close>.
\<close>

datatype js_value = Num int | Obj | Undefined | NaN

text \<open>
  The names every plain object inherits from \<^verbatim>\<open>Object.prototype\<close>. Looking one of them up
  in an object literal finds the inherited function (for \<^verbatim>\<open>__proto__\<close>, the prototype
  object).
\<close>

definition inherited_members :: "string list" where
  "inherited_members =
     [''constructor'', ''toString'', ''toLocaleString'', ''valueOf'', ''hasOwnProperty'',
      ''isPrototypeOf'', ''propertyIsEnumerable'', ''__proto__'', ''__defineGetter__'',
      ''__defineSetter__'', ''__lookupGetter__'', ''__lookupSetter__'']"

text \<open>\<^verbatim>\<open>order[c]\<close> for the object \<^verbatim>\<open>order = { Severe: 3, Moderate: 2, Low: 1 }\<close>.\<close>

definition order_get :: "string \<Rightarrow> js_value" where
  "order_get c =
     (if c = ''Severe'' then Num 3 else if c = ''Moderate'' then Num 2
      else if c = ''Low'' then Num 1
      else if c \<in> set inherited_members then Obj else Undefined)"

text \<open>\<^verbatim>\<open>v || 0\<close>: the value itself when it is truthy, otherwise 0.\<close>

fun or_zero :: "js_value \<Rightarrow> js_value" where
  "or_zero (Num n) = Num n"
| "or_zero Obj = Obj"
| "or_zero Undefined = Num 0"
| "or_zero NaN = Num 0"

text \<open>
  \<^verbatim>\<open>a - b\<close>: the difference of two numbers; an operand that is a function, an object or
  \<^verbatim>\<open>undefined\<close> converts to \<^verbatim>\<open>NaN\<close>, and so does the difference.
\<close>

fun js_minus :: "js_value \<Rightarrow> js_value \<Rightarrow> js_value" where
  "js_minus (Num x) (Num y) = Num (x - y)"
| "js_minus _ _ = NaN"

text \<open>The comparator passed to \<^verbatim>\<open>sort\<close>.\<close>

definition compare_reports :: "view_state \<Rightarrow> report \<Rightarrow> report \<Rightarrow> js_value" where
  "compare_reports q a b =
     (if sortBy q = ''upvotes'' then js_minus (Num (up (votes b))) (Num (up (votes a)))
      else if sortBy q = ''downvotes'' then js_minus (Num (down (votes b))) (Num (down (votes a)))
      else if sortBy q = ''severity''
        then js_minus (or_zero (order_get (category b))) (or_zero (order_get (category a)))
      else Num 0)"

text \<open>
  The key each sort mode is said to order by, largest first: the up-votes, the
  down-votes, or the rank of the category (Severe 3, Moderate 2, Low 1, any other 0).
\<close>

definition severity_rank :: "string \<Rightarrow> int" where
  "severity_rank c =
     (if c = ''Severe'' then 3 else if c = ''Moderate'' then 2 else if c = ''Low'' then 1 else 0)"

definition sort_key_of :: "view_state \<Rightarrow> report \<Rightarrow> int" where
  "sort_key_of q r =
     (if sortBy q = ''upvotes'' then up (votes r)
      else if sortBy q = ''downvotes'' then down (votes r)
      else if sortBy q = ''severity'' then severity_rank (category r)
      else 0)"

text \<open>
  \<^verbatim>\<open>Array.prototype.sort\<close> with a comparator. The sort reads the comparator's result as a
  number and takes \<^verbatim>\<open>NaN\<close> for 0 (\<open>SortCompare\<close>). The language standard fixes the
  result for a consistent comparator: the elements in ascending order of the comparator,
  equal ones in their order of the input. Insertion from the right computes that
  arrangement: an element passes only the elements it is strictly greater than. For a
  comparator that is not consistent the standard leaves the order to the engine. An
  array in which every comparison of neighbours gives 0 is a single run that never
  descends: insertion leaves it as it is, and so does an engine that first looks for
  such runs.
\<close>

definition SortCompare :: "('a \<Rightarrow> 'a \<Rightarrow> js_value) \<Rightarrow> 'a \<Rightarrow> 'a \<Rightarrow> int" where
  "SortCompare cmp x y = (case cmp x y of Num v \<Rightarrow> v | _ \<Rightarrow> 0)"

fun insert_cmp :: "('a \<Rightarrow> 'a \<Rightarrow> js_value) \<Rightarrow> 'a \<Rightarrow> 'a list \<Rightarrow> 'a list" where
  "insert_cmp cmp x [] = [x]"
| "insert_cmp cmp x (y # ys) =
     (if SortCompare cmp x y \<le> 0 then x # y # ys else y # insert_cmp cmp x ys)"

definition sort_cmp :: "('a \<Rightarrow> 'a \<Rightarrow> js_value) \<Rightarrow> 'a list \<Rightarrow> 'a list" where
  "sort_cmp cmp xs = foldr (insert_cmp cmp) xs []"

text \<open>The projection on the contents of the arrays.\<close>

definition filteredReports :: "distance \<Rightarrow> view_state \<Rightarrow> report list \<Rightarrow> report list" where
  "filteredReports getDistance q reports =
     sort_cmp (compare_reports q)
       (filter (within_range getDistance q) (filter (matches_search q) reports))"

subsection \<open>The same computation on a store of arrays\<close>

text \<open>
  \<^verbatim>\<open>filter\<close> returns a new array and \<^verbatim>\<open>sort\<close> sorts the array it is called on in
  place and returns it. An array is an address into a store; the address is the index of
  the array in the list of all arrays allocated so far.
\<close>

type_synonym heap = "report list list"

definition alloc :: "report list \<Rightarrow> heap \<Rightarrow> nat \<times> heap" where
  "alloc xs h = (length h, h @ [xs])"

definition Array_filter :: "(report \<Rightarrow> bool) \<Rightarrow> nat \<Rightarrow> heap \<Rightarrow> nat \<times> heap" where
  "Array_filter f a h = alloc (filter f (h ! a)) h"

definition Array_sort :: "(report \<Rightarrow> report \<Rightarrow> js_value) \<Rightarrow> nat \<Rightarrow> heap \<Rightarrow> nat \<times> heap" where
  "Array_sort cmp a h = (a, h[a := sort_cmp cmp (h ! a)])"

definition filteredReports_heap :: "distance \<Rightarrow> view_state \<Rightarrow> nat \<Rightarrow> heap \<Rightarrow> nat \<times> heap" where
  "filteredReports_heap getDistance q reports h =
     (case Array_filter (matches_search q) reports h of
        (a1, h1) \<Rightarrow>
          (case Array_filter (within_range getDistance q) a1 h1 of
             (a2, h2) \<Rightarrow> Array_sort (compare_reports q) a2 h2))"

section \<open>Voting (handleVote)\<close>

text \<open>
  The two Firestore collections the view writes: \<^verbatim>\<open>reports\<close> by document id, and
  \<^verbatim>\<open>userVotes\<close> by user id, a document of which holds \<^verbatim>\<open>{ [reportId]: true }\<close> for every
  report the user voted on.
\<close>

record db =
  reports_col :: "string \<rightharpoonup> report_data"
  userVotes_col :: "string \<rightharpoonup> string set"

text \<open>
  The writes a batch collects: \<^verbatim>\<open>batch.update(reportRef, { [field]: increment(1) })\<close> and
  \<^verbatim>\<open>batch.set(votesRef, { [reportId]: true }, { merge: true })\<close>.
\<close>

datatype batch_write =
  UpdateIncrement string string
| SetMerge string string

definition increment_field :: "string \<Rightarrow> report_data \<Rightarrow> report_data" where
  "increment_field field r =
     (if field = ''votes.up'' then r\<lparr>votes := (votes r)\<lparr>up := up (votes r) + 1\<rparr>\<rparr>
      else if field = ''votes.down'' then r\<lparr>votes := (votes r)\<lparr>down := down (votes r) + 1\<rparr>\<rparr>
      else r)"

text \<open>An update of a document that does not exist fails; a merging set creates it.\<close>

fun apply_write :: "batch_write \<Rightarrow> db \<Rightarrow> db option" where
  "apply_write (UpdateIncrement reportId field) d =
     (case reports_col d reportId of
        None \<Rightarrow> None
      | Some r \<Rightarrow> Some (d\<lparr>reports_col := (reports_col d)(reportId \<mapsto> increment_field field r)\<rparr>))"
| "apply_write (SetMerge uid reportId) d =
     Some (d\<lparr>userVotes_col := (userVotes_col d)(uid \<mapsto>
        insert reportId (case userVotes_col d uid of None \<Rightarrow> {} | Some s \<Rightarrow> s))\<rparr>)"

fun apply_writes :: "batch_write list \<Rightarrow> db \<Rightarrow> db option" where
  "apply_writes [] d = Some d"
| "apply_writes (w # ws) d =
     (case apply_write w d of None \<Rightarrow> None | Some d' \<Rightarrow> apply_writes ws d')"

text \<open>
  \<^verbatim>\<open>batch.commit()\<close>: Firestore applies the writes of a batch as one unit. \<open>available\<close>
  says whether the backend accepts the commit (network, security rules); a rejected
  commit, like one with a failing write, leaves the database as it was.
\<close>

definition commit :: "bool \<Rightarrow> batch_write list \<Rightarrow> db \<Rightarrow> db option" where
  "commit available batch d = (if available then apply_writes batch d else None)"

datatype vote_outcome = LoginAlert | Committed | VoteFailed | Disabled

text \<open>
  \<^verbatim>\<open>handleVote(reportId, type)\<close>. \<open>user\<close> is the uid of the signed-in user, if any; an
  empty uid is falsy like a missing one.
\<close>

definition handleVote :: "bool \<Rightarrow> string option \<Rightarrow> string \<Rightarrow> int \<Rightarrow> db \<Rightarrow> db \<times> vote_outcome" where
  "handleVote available user reportId type d =
     (case user of
        None \<Rightarrow> (d, LoginAlert)
      | Some uid \<Rightarrow>
          if uid = [] then (d, LoginAlert)
          else
            (let field = (if type = 1 then ''votes.up'' else ''votes.down'');
                 batch = [UpdateIncrement reportId field, SetMerge uid reportId]
             in case commit available batch d of
                  Some d' \<Rightarrow> (d', Committed)
                | None \<Rightarrow> (d, VoteFailed)))"

text \<open>
  The vote buttons of a report card: \<^verbatim>\<open>disabled={voted[r.id]}\<close>, and the click calls
  \<^verbatim>\<open>handleVote\<close>. \<open>voted\<close> is the view's copy of the user's vote document, replaced only
  when the listener on that document delivers a snapshot.
\<close>

definition vote_button_click ::
    "string set \<Rightarrow> bool \<Rightarrow> string option \<Rightarrow> string \<Rightarrow> int \<Rightarrow> db \<Rightarrow> db \<times> vote_outcome" where
  "vote_button_click voted available user reportId type d =
     (if reportId \<in> voted then (d, Disabled)
      else handleVote available user reportId type d)"

definition votes_snapshot :: "db \<Rightarrow> string \<Rightarrow> string set \<Rightarrow> string set" where
  "votes_snapshot d uid voted =
     (case userVotes_col d uid of None \<Rightarrow> voted | Some s \<Rightarrow> s)"

section \<open>Classification and submission (generateSeverity, ReportForm)\<close>

text \<open>\<^verbatim>\<open>String.prototype.trim\<close> on Latin-1 text: white space and line ends go from both ends.\<close>

definition is_space :: "char \<Rightarrow> bool" where
  "is_space c = (of_char c \<in> {9, 10, 11, 12, 13, 32, 160 :: nat})"

definition trim :: "string \<Rightarrow> string" where
  "trim s = rev (dropWhile is_space (rev (dropWhile is_space s)))"

text \<open>
  \<^verbatim>\<open>generateSeverity(title, description)\<close>. The generative model is the parameter
  \<open>model\<close>: the text it answers to the prompt built from title and description, or
  \<open>None\<close> when a call inside the \<^verbatim>\<open>try\<close> block throws.
\<close>

type_synonym classifier = "string \<Rightarrow> string \<Rightarrow> string option"

definition generateSeverity :: "classifier \<Rightarrow> string \<Rightarrow> string \<Rightarrow> string" where
  "generateSeverity model title_text description =
     (case model title_text description of
        Some response \<Rightarrow> trim response
      | None \<Rightarrow> ''Uncategorized'')"

text \<open>The state of the form, and every call of one of its setters.\<close>

record form =
  st_title :: string
  st_description :: string
  st_radius :: int
  st_crimeRate :: int
  st_isSubmitting :: bool

definition initial_form :: form where
  "initial_form = \<lparr>st_title = [], st_description = [], st_radius = 300,
     st_crimeRate = 0, st_isSubmitting = False\<rparr>"

datatype form_event =
  SetTitle string
| SetDescription string
| SetRadius int
| MountEffect
| SetIsSubmitting bool

fun form_step :: "form_event \<Rightarrow> form \<Rightarrow> form" where
  "form_step (SetTitle t) f = f\<lparr>st_title := t\<rparr>"
| "form_step (SetDescription t) f = f\<lparr>st_description := t\<rparr>"
| "form_step (SetRadius n) f = f\<lparr>st_radius := n\<rparr>"
| "form_step MountEffect f = f\<lparr>st_crimeRate := 0\<rparr>"
| "form_step (SetIsSubmitting b) f = f\<lparr>st_isSubmitting := b\<rparr>"

inductive reachable :: "form \<Rightarrow> bool" where
  initial: "reachable initial_form"
| step: "reachable f \<Longrightarrow> reachable (form_step e f)"

text \<open>
  \<^verbatim>\<open>addDataToFirestore\<close> and \<^verbatim>\<open>setDataToFirestore\<close>: both catch the error of their write
  and log it. \<open>new_id\<close> is the id the backend gives the added document, \<open>None\<close> when
  \<^verbatim>\<open>addDoc\<close> rejects; \<open>set_ok\<close> says whether \<^verbatim>\<open>setDoc\<close> succeeds.
\<close>

definition addDataToFirestore :: "string option \<Rightarrow> report_data \<Rightarrow> db \<Rightarrow> string option \<times> db" where
  "addDataToFirestore new_id data d =
     (case new_id of
        Some i \<Rightarrow> (Some i, d\<lparr>reports_col := (reports_col d)(i \<mapsto> data)\<rparr>)
      | None \<Rightarrow> (None, d))"

definition setDataToFirestore :: "bool \<Rightarrow> string \<Rightarrow> report_data \<Rightarrow> db \<Rightarrow> db" where
  "setDataToFirestore set_ok docId data d =
     (if set_ok then d\<lparr>reports_col := (reports_col d)(docId \<mapsto> data)\<rparr> else d)"

datatype submit_outcome =
  NotSubmitted
| Submitted string report_data
| SubmitError

text \<open>
  \<^verbatim>\<open>handleSubmit\<close>, with the position the form was opened at and the time of the
  submission. Reading \<^verbatim>\<open>docRef.id\<close> of the undefined result of a failed add throws, and
  the handler's own \<^verbatim>\<open>catch\<close> logs that.
\<close>

definition handleSubmit ::
    "classifier \<Rightarrow> string option \<Rightarrow> bool \<Rightarrow> string \<Rightarrow> latlng \<Rightarrow> form \<Rightarrow> db \<Rightarrow> db \<times> submit_outcome" where
  "handleSubmit model new_id set_ok now position f d =
     (if trim (st_title f) = [] \<or> trim (st_description f) = [] then (d, NotSubmitted)
      else
        (let severity = generateSeverity model (st_title f) (st_description f);
             data = \<lparr>pos = Some \<lparr>lat = lat position, lng = lng position\<rparr>,
                     title = trim (st_title f),
                     desc = trim (st_description f),
                     category = severity,
                     votes = \<lparr>up = 0, down = 0\<rparr>,
                     radius = Some (st_radius f),
                     crimeProb = Some (st_crimeRate f),
                     createdAt = now\<rparr>
         in case addDataToFirestore new_id data d of
              (None, d1) \<Rightarrow> (d1, SubmitError)
            | (Some docId, d1) \<Rightarrow> (setDataToFirestore set_ok docId data d1, Submitted docId data)))"

section \<open>Sample data\<close>

definition origin :: latlng where
  "origin = \<lparr>lat = 0, lng = 0\<rparr>"

definition sample_report :: "string \<Rightarrow> latlng option \<Rightarrow> string \<Rightarrow> int \<Rightarrow> int option \<Rightarrow> report" where
  "sample_report i p c u rad =
     \<lparr>pos = p, title = ''Flooded street'', desc = ''Water on the road'', category = c,
      votes = \<lparr>up = u, down = 0\<rparr>, radius = rad, crimeProb = Some 0,
      createdAt = ''2025-01-01T00:00:00.000Z'', rid = i\<rparr>"

definition sample_data :: report_data where
  "sample_data = \<lparr>pos = Some origin, title = ''Flooded street'', desc = ''Water on the road'',
      category = ''Low'', votes = \<lparr>up = 0, down = 0\<rparr>, radius = Some 300, crimeProb = Some 0,
      createdAt = ''2025-01-01T00:00:00.000Z''\<rparr>"

definition sample_db :: db where
  "sample_db = \<lparr>reports_col = [''r1'' \<mapsto> sample_data], userVotes_col = Map.empty\<rparr>"

definition sample_form :: form where
  "sample_form =
     form_step (SetRadius 500) (form_step (SetDescription ''Water on the road'')
       (form_step (SetTitle ''Flooded street'') (form_step MountEffect initial_form)))"

definition sample_view :: view_state where
  "sample_view = \<lparr>searchQuery = [], sortMode = ''nearby'', rangeKm = 1, sortBy = ''upvotes'',
      mapCenter = Some origin\<rparr>"

section \<open>The risk score\<close>

lemma foldl_add_sum_list:
  "foldl (\<lambda>s r. s + f r) a xs = a + sum_list (map f xs)" for a :: int
  by (induction xs arbitrary: a) simp_all

lemma Math_round_nearest: "\<bar>real_of_int (Math_round x) - x\<bar> \<le> 1 / 2"
  unfolding Math_round_def by linarith

lemma MapEvents_click_filter:
  "MapEvents_click gd p rs =
     (if filter (covers gd p) rs = [] then 0
      else Math_round (real_of_int (\<Sum>r\<leftarrow>filter (covers gd p) rs. score (category r))
                       / real (length (filter (covers gd p) rs))))"
  by (simp add: MapEvents_click_def nearby_def Let_def foldl_add_sum_list Math_round_def)

lemma covers_explicit:
  "covers gd p =
     (\<lambda>r. case pos r of
            None \<Rightarrow> False
          | Some q \<Rightarrow> gd p q \<le> (case radius r of None \<Rightarrow> 800 | Some own \<Rightarrow> own))"
  by (rule ext) (simp add: covers_def Let_def split: option.splits)

lemma score_explicit:
  "score = (\<lambda>c. if c = ''Severe'' then 90 else if c = ''Moderate'' then 60 else 30)"
  by (rule ext) (simp add: score_def)

text \<open>
  C2. Let \<open>N\<close> be the reports that have a position whose distance from the point \<open>p\<close> is
  at most the report's own radius (800 metres for a report that stores none), and let
  \<open>w\<close> weigh a category 90 for Severe, 60 for Moderate and 30 otherwise, so 30 for Low
  and for Uncategorized. A report without a position, and a report farther from \<open>p\<close> than
  its radius, is not in \<open>N\<close> and does not count. The score at \<open>p\<close> is 0 when \<open>N\<close> is
  empty; otherwise it is the average of \<open>w\<close> over \<open>N\<close> rounded to the nearest integer, a
  tie going up, so at most one half away from the exact average.
\<close>

theorem risk_by_category:
  "N = filter (\<lambda>r. case pos r of
                    None \<Rightarrow> False
                  | Some q \<Rightarrow> gd p q \<le> (case radius r of None \<Rightarrow> 800 | Some own \<Rightarrow> own)) rs \<Longrightarrow>
   w = (\<lambda>c. if c = ''Severe'' then 90 else if c = ''Moderate'' then 60 else (30::int)) \<Longrightarrow>
   (N = [] \<longrightarrow> MapEvents_click gd p rs = 0) \<and>
   (N \<noteq> [] \<longrightarrow>
      MapEvents_click gd p rs
        = \<lfloor>real_of_int (\<Sum>r\<leftarrow>N. w (category r)) / real (length N) + 1 / 2\<rfloor> \<and>
      \<bar>real_of_int (MapEvents_click gd p rs)
        - real_of_int (\<Sum>r\<leftarrow>N. w (category r)) / real (length N)\<bar> \<le> 1 / 2) \<and>
   w ''Severe'' = 90 \<and> w ''Moderate'' = 60 \<and> w ''Low'' = 30 \<and> w ''Uncategorized'' = 30"
proof -
  assume N: "N = filter (\<lambda>r. case pos r of
                    None \<Rightarrow> False
                  | Some q \<Rightarrow> gd p q \<le> (case radius r of None \<Rightarrow> 800 | Some own \<Rightarrow> own)) rs"
    and w: "w = (\<lambda>c. if c = ''Severe'' then 90 else if c = ''Moderate'' then 60 else (30::int))"
  have N': "N = filter (covers gd p) rs"
    by (simp only: N covers_explicit)
  have w': "w = score"
    by (simp only: w score_explicit)
  have val: "MapEvents_click gd p rs =
     (if N = [] then 0
      else Math_round (real_of_int (\<Sum>r\<leftarrow>N. w (category r)) / real (length N)))"
    unfolding N' w' by (rule MapEvents_click_filter)
  have none: "N = [] \<longrightarrow> MapEvents_click gd p rs = 0"
    by (simp add: val)
  have some: "N \<noteq> [] \<longrightarrow>
      MapEvents_click gd p rs
        = \<lfloor>real_of_int (\<Sum>r\<leftarrow>N. w (category r)) / real (length N) + 1 / 2\<rfloor> \<and>
      \<bar>real_of_int (MapEvents_click gd p rs)
        - real_of_int (\<Sum>r\<leftarrow>N. w (category r)) / real (length N)\<bar> \<le> 1 / 2"
  proof
    assume ne: "N \<noteq> []"
    have eq: "MapEvents_click gd p rs
        = Math_round (real_of_int (\<Sum>r\<leftarrow>N. w (category r)) / real (length N))"
      using ne by (simp add: val)
    have near: "\<bar>real_of_int (MapEvents_click gd p rs)
        - real_of_int (\<Sum>r\<leftarrow>N. w (category r)) / real (length N)\<bar> \<le> 1 / 2"
      unfolding eq by (rule Math_round_nearest)
    from eq near show "MapEvents_click gd p rs
        = \<lfloor>real_of_int (\<Sum>r\<leftarrow>N. w (category r)) / real (length N) + 1 / 2\<rfloor> \<and>
      \<bar>real_of_int (MapEvents_click gd p rs)
        - real_of_int (\<Sum>r\<leftarrow>N. w (category r)) / real (length N)\<bar> \<le> 1 / 2"
      by (simp add: Math_round_def)
  qed
  have weights: "w ''Severe'' = 90 \<and> w ''Moderate'' = 60 \<and> w ''Low'' = 30 \<and>
      w ''Uncategorized'' = 30"
    by (simp add: w)
  from none some weights show ?thesis by blast
qed

text \<open>
  Three reports at the clicked point with the categories Severe, Moderate and Low score
  60. A Severe report 5000 metres away with radius 300 and a Severe report without a
  position are in the list too, and neither counts.
\<close>

theorem risk_by_category_witness:
  "filter (\<lambda>r. case pos r of
                None \<Rightarrow> False
              | Some q \<Rightarrow> (if origin = q then 0 else 5000)
                           \<le> (case radius r of None \<Rightarrow> 800 | Some own \<Rightarrow> own))
     [sample_report ''r1'' (Some origin) ''Severe'' 0 (Some 300),
      sample_report ''r2'' (Some origin) ''Moderate'' 0 (Some 300),
      sample_report ''r3'' (Some origin) ''Low'' 0 (Some 300),
      sample_report ''r4'' (Some \<lparr>lat = 1, lng = 0\<rparr>) ''Severe'' 0 (Some 300),
      sample_report ''r5'' None ''Severe'' 0 (Some 300)]
     = [sample_report ''r1'' (Some origin) ''Severe'' 0 (Some 300),
        sample_report ''r2'' (Some origin) ''Moderate'' 0 (Some 300),
        sample_report ''r3'' (Some origin) ''Low'' 0 (Some 300)] \<and>
   MapEvents_click (\<lambda>a b. if a = b then 0 else 5000) origin
     [sample_report ''r1'' (Some origin) ''Severe'' 0 (Some 300),
      sample_report ''r2'' (Some origin) ''Moderate'' 0 (Some 300),
      sample_report ''r3'' (Some origin) ''Low'' 0 (Some 300),
      sample_report ''r4'' (Some \<lparr>lat = 1, lng = 0\<rparr>) ''Severe'' 0 (Some 300),
      sample_report ''r5'' None ''Severe'' 0 (Some 300)] = 60"
  using risk_by_category [OF refl refl, of "\<lambda>a b. if a = b then 0 else 5000" origin
     "[sample_report ''r1'' (Some origin) ''Severe'' 0 (Some 300),
      sample_report ''r2'' (Some origin) ''Moderate'' 0 (Some 300),
      sample_report ''r3'' (Some origin) ''Low'' 0 (Some 300),
      sample_report ''r4'' (Some \<lparr>lat = 1, lng = 0\<rparr>) ''Severe'' 0 (Some 300),
      sample_report ''r5'' None ''Severe'' 0 (Some 300)]"]
  by (simp add: sample_report_def origin_def)

section \<open>The default radius\<close>

text \<open>
  C3, as the claim states it: a report without a radius is treated by the risk
  computation as one with radius 300. It is not: 500 metres from the clicked point, the
  report without a radius counts (score 30) and the same report with radius 300 does not
  (score 0).
\<close>

theorem absent_radius_counterexample:
  "MapEvents_click (\<lambda>a b. 500) origin [sample_report ''r1'' (Some origin) ''Low'' 0 None]
   \<noteq> MapEvents_click (\<lambda>a b. 500) origin [sample_report ''r1'' (Some origin) ''Low'' 0 (Some 300)]"
  by (simp add: MapEvents_click_def nearby_def covers_def sample_report_def score_def Math_round_def)

text \<open>
  C3, amended. For a report without a radius, the circle drawn around its marker is the
  one of the same report with radius 300, and the form starts with radius 300; the
  coverage test of the risk computation, and so the score, treat it as the same report
  with radius 800.
\<close>

theorem absent_radius_defaults:
  "radius r = None \<Longrightarrow>
     marker_circle s r = marker_circle s (r\<lparr>radius := Some 300\<rparr>) \<and>
     covers gd p r = covers gd p (r\<lparr>radius := Some 800\<rparr>) \<and>
     MapEvents_click gd p [r] = MapEvents_click gd p [r\<lparr>radius := Some 800\<rparr>] \<and>
     st_radius initial_form = 300"
  by (simp add: covers_def marker_circle_def MapEvents_click_def nearby_def initial_form_def
        Let_def split: option.splits)

theorem absent_radius_defaults_witness:
  "radius (sample_report ''r1'' (Some origin) ''Low'' 0 None) = None \<and>
   marker_circle True (sample_report ''r1'' (Some origin) ''Low'' 0 None)
     = Some \<lparr>center = origin, circle_radius = 300, color = ''#4caf50''\<rparr> \<and>
   covers (\<lambda>a b. 500) origin (sample_report ''r1'' (Some origin) ''Low'' 0 None)"
  using absent_radius_defaults
    [of "sample_report ''r1'' (Some origin) ''Low'' 0 None" True "\<lambda>a b. 500" origin]
  by (simp add: covers_def marker_circle_def sample_report_def)

section \<open>The sort of the view\<close>

lemma mset_insert_cmp: "mset (insert_cmp cmp x ys) = add_mset x (mset ys)"
  by (induction ys) simp_all

lemma mset_sort_cmp: "mset (sort_cmp cmp xs) = mset xs"
  by (induction xs) (simp_all add: sort_cmp_def mset_insert_cmp)

lemma set_insert_cmp: "set (insert_cmp cmp x ys) = insert x (set ys)"
  by (induction ys) auto

lemma set_sort_cmp: "set (sort_cmp cmp xs) = set xs"
  using mset_sort_cmp [of cmp xs] by (metis set_mset_mset)

text \<open>
  Where the comparator is the difference of a key on the elements at hand, insertion
  keeps a list that descends in the key descending.
\<close>

lemma sorted_insert_cmp:
  assumes key: "\<And>y. y \<in> set ys \<Longrightarrow> SortCompare cmp x y = k y - k x"
    and srt: "sorted_wrt (\<lambda>a b. k b \<le> k a) ys"
  shows "sorted_wrt (\<lambda>a b. k b \<le> k a) (insert_cmp cmp x ys)"
  using key srt
proof (induction ys)
  case Nil
  show ?case by simp
next
  case (Cons y ys)
  have xy: "SortCompare cmp x y = k y - k x"
    by (rule Cons.prems(1)) simp
  show ?case
  proof (cases "SortCompare cmp x y \<le> 0")
    case True
    then have "k y \<le> k x" by (simp add: xy)
    with Cons.prems(2) True show ?thesis by auto
  next
    case False
    then have le: "k x \<le> k y" by (simp add: xy)
    have "sorted_wrt (\<lambda>a b. k b \<le> k a) (insert_cmp cmp x ys)"
      using Cons.prems by (intro Cons.IH) simp_all
    with Cons.prems(2) False le show ?thesis
      by (auto simp: set_insert_cmp)
  qed
qed

lemma sorted_sort_cmp:
  assumes key: "\<And>a b. a \<in> set xs \<Longrightarrow> b \<in> set xs \<Longrightarrow> SortCompare cmp a b = k b - k a"
  shows "sorted_wrt (\<lambda>a b. k b \<le> k a) (sort_cmp cmp xs)"
  using key
proof (induction xs)
  case Nil
  show ?case by (simp add: sort_cmp_def)
next
  case (Cons x xs)
  have unfold: "sort_cmp cmp (x # xs) = insert_cmp cmp x (sort_cmp cmp xs)"
    by (simp add: sort_cmp_def)
  have tail: "sorted_wrt (\<lambda>a b. k b \<le> k a) (sort_cmp cmp xs)"
    using Cons.prems by (intro Cons.IH) simp_all
  have "sorted_wrt (\<lambda>a b. k b \<le> k a) (insert_cmp cmp x (sort_cmp cmp xs))"
  proof (rule sorted_insert_cmp [OF _ tail])
    fix y assume "y \<in> set (sort_cmp cmp xs)"
    then have "y \<in> set xs" by (simp add: set_sort_cmp)
    then show "SortCompare cmp x y = k y - k x"
      by (intro Cons.prems) simp_all
  qed
  then show ?case by (simp only: unfold)
qed

text \<open>And it puts the new element in front of the elements of its own key.\<close>

lemma filter_key_insert_cmp:
  assumes key: "\<And>y. y \<in> set ys \<Longrightarrow> SortCompare cmp x y = k y - k x"
  shows "filter (\<lambda>r. k r = v) (insert_cmp cmp x ys)
         = (if k x = v then x # filter (\<lambda>r. k r = v) ys else filter (\<lambda>r. k r = v) ys)"
  using key by (induction ys) auto

lemma stable_sort_cmp:
  assumes key: "\<And>a b. a \<in> set xs \<Longrightarrow> b \<in> set xs \<Longrightarrow> SortCompare cmp a b = k b - k a"
  shows "filter (\<lambda>r. k r = v) (sort_cmp cmp xs) = filter (\<lambda>r. k r = v) xs"
  using key
proof (induction xs)
  case Nil
  show ?case by (simp add: sort_cmp_def)
next
  case (Cons x xs)
  have unfold: "sort_cmp cmp (x # xs) = insert_cmp cmp x (sort_cmp cmp xs)"
    by (simp add: sort_cmp_def)
  have tail: "filter (\<lambda>r. k r = v) (sort_cmp cmp xs) = filter (\<lambda>r. k r = v) xs"
    using Cons.prems by (intro Cons.IH) simp_all
  have "filter (\<lambda>r. k r = v) (insert_cmp cmp x (sort_cmp cmp xs))
      = (if k x = v then x # filter (\<lambda>r. k r = v) (sort_cmp cmp xs)
         else filter (\<lambda>r. k r = v) (sort_cmp cmp xs))"
  proof (rule filter_key_insert_cmp)
    fix y assume "y \<in> set (sort_cmp cmp xs)"
    then have "y \<in> set xs" by (simp add: set_sort_cmp)
    then show "SortCompare cmp x y = k y - k x"
      by (intro Cons.prems) simp_all
  qed
  then show ?case by (simp add: unfold tail)
qed

text \<open>
  The comparator is the difference of the keys, the second argument's first, unless the
  sort is by severity and one of the two categories names an inherited member.
\<close>

lemma order_get_rank:
  "c \<notin> set inherited_members \<Longrightarrow> or_zero (order_get c) = Num (severity_rank c)"
  by (simp add: order_get_def severity_rank_def)

lemma compare_reports_key:
  assumes "sortBy q = ''severity'' \<Longrightarrow>
     category a \<notin> set inherited_members \<and> category b \<notin> set inherited_members"
  shows "SortCompare (compare_reports q) a b = sort_key_of q b - sort_key_of q a"
  using assms
  by (auto simp: SortCompare_def compare_reports_def sort_key_of_def order_get_rank)

text \<open>
  On the lists for which the comparator is consistent (every list when the sort is by
  votes; for severity, the lists without a category that names an inherited member),
  the view descends in the selected key and the sort is stable: the reports of one key
  keep the order they had before the sort.
\<close>

lemma view_sort_stable_ranked:
  assumes ranked: "sortBy q = ''severity'' \<Longrightarrow>
     \<forall>r \<in> set rs. category r \<notin> set inherited_members"
  shows "sorted_wrt (\<lambda>a b. sort_key_of q b \<le> sort_key_of q a) (filteredReports gd q rs) \<and>
     filter (\<lambda>r. sort_key_of q r = k) (filteredReports gd q rs)
       = filter (\<lambda>r. sort_key_of q r = k)
           (filter (within_range gd q) (filter (matches_search q) rs))"
proof -
  let ?xs = "filter (within_range gd q) (filter (matches_search q) rs)"
  have key: "SortCompare (compare_reports q) a b = sort_key_of q b - sort_key_of q a"
    if "a \<in> set ?xs" "b \<in> set ?xs" for a b
  proof (rule compare_reports_key)
    assume "sortBy q = ''severity''"
    then have "\<forall>r \<in> set rs. category r \<notin> set inherited_members" by (rule ranked)
    with that show "category a \<notin> set inherited_members \<and> category b \<notin> set inherited_members"
      by simp
  qed
  have "sorted_wrt (\<lambda>a b. sort_key_of q b \<le> sort_key_of q a) (sort_cmp (compare_reports q) ?xs)"
    by (rule sorted_sort_cmp) (rule key)
  moreover have "filter (\<lambda>r. sort_key_of q r = k) (sort_cmp (compare_reports q) ?xs)
      = filter (\<lambda>r. sort_key_of q r = k) ?xs"
    by (rule stable_sort_cmp) (rule key)
  ultimately show ?thesis by (simp only: filteredReports_def)
qed

text \<open>
  C6. The claim asks that a sort by severity puts the reports in descending order of the
  rank Severe 3, Moderate 2, Low 1, any other category 0. The comparator reads the rank as
  \<^verbatim>\<open>order[c] || 0\<close>, and for the category \<^verbatim>\<open>constructor\<close> that finds the function every
  object inherits: the difference is \<^verbatim>\<open>NaN\<close>, which the sort takes for 0. In the list
  Low, \<^verbatim>\<open>constructor\<close>, Severe every comparison of neighbours is such a 0, the view is the
  list as it was, and the Low report stands before the Severe one.
\<close>

theorem severity_sort_inherited_name:
  "filteredReports (\<lambda>a b. 0) (sample_view\<lparr>sortBy := ''severity''\<rparr>)
     [sample_report ''a'' (Some origin) ''Low'' 0 None,
      sample_report ''b'' (Some origin) ''constructor'' 0 None,
      sample_report ''c'' (Some origin) ''Severe'' 0 None]
   = [sample_report ''a'' (Some origin) ''Low'' 0 None,
      sample_report ''b'' (Some origin) ''constructor'' 0 None,
      sample_report ''c'' (Some origin) ''Severe'' 0 None] \<and>
   compare_reports (sample_view\<lparr>sortBy := ''severity''\<rparr>)
     (sample_report ''a'' (Some origin) ''Low'' 0 None)
     (sample_report ''b'' (Some origin) ''constructor'' 0 None) = NaN \<and>
   severity_rank ''Low'' < severity_rank ''Severe''"
  by (simp add: filteredReports_def sort_cmp_def SortCompare_def compare_reports_def
      order_get_def inherited_members_def severity_rank_def within_range_def
      matches_search_def sample_view_def sample_report_def toLowerCase_def)

section \<open>The spatial filter of the view\<close>

text \<open>
  C4, as the claim states it: in nearby mode a report without a position is excluded from
  the view. It is not: with a reference point set and nearby mode on, the view of a single
  report without a position is that report.
\<close>

theorem nearby_view_counterexample:
  "sortMode sample_view = ''nearby'' \<and> mapCenter sample_view = Some origin \<and>
   pos (sample_report ''r1'' None ''Low'' 0 None) = None \<and>
   filteredReports (\<lambda>a b. 0) sample_view [sample_report ''r1'' None ''Low'' 0 None]
     = [sample_report ''r1'' None ''Low'' 0 None]"
  by (simp add: filteredReports_def sort_cmp_def within_range_def matches_search_def
      sample_view_def sample_report_def toLowerCase_def)

text \<open>The two filters as one, in each mode.\<close>

lemma filter_within_range_nearby:
  "sortMode q = ''nearby'' \<Longrightarrow> mapCenter q = Some c \<Longrightarrow>
   filter (within_range gd q) (filter (matches_search q) rs)
     = filter (\<lambda>r. matches_search q r \<and>
                 (case pos r of None \<Rightarrow> True | Some p \<Rightarrow> gd c p \<le> rangeKm q * 1000)) rs"
  by (induction rs) (simp_all add: within_range_def)

lemma filter_within_range_unbounded:
  "sortMode q \<noteq> ''nearby'' \<Longrightarrow>
   filter (within_range gd q) (filter (matches_search q) rs) = filter (matches_search q) rs"
  by (induction rs) (simp_all add: within_range_def)

text \<open>
  C4, amended. In nearby mode with a reference point, the view holds exactly the reports
  that match the search text and that either have no position or lie at most
  \<open>rangeKm * 1000\<close> metres from the reference point: a report with a position farther away
  is left out, a report without a position stays. In any other mode the view holds exactly
  the reports that match the search text, with or without a position.
\<close>

theorem nearby_view_retains:
  "(sortMode q = ''nearby'' \<and> mapCenter q = Some c \<longrightarrow>
      mset (filteredReports gd q rs)
        = mset (filter (\<lambda>r. matches_search q r \<and>
                  (case pos r of None \<Rightarrow> True | Some p \<Rightarrow> gd c p \<le> rangeKm q * 1000)) rs)) \<and>
   (sortMode q \<noteq> ''nearby'' \<longrightarrow>
      mset (filteredReports gd q rs) = mset (filter (matches_search q) rs))"
proof (intro conjI impI)
  assume nearby: "sortMode q = ''nearby'' \<and> mapCenter q = Some c"
  then have "filter (within_range gd q) (filter (matches_search q) rs)
     = filter (\<lambda>r. matches_search q r \<and>
                 (case pos r of None \<Rightarrow> True | Some p \<Rightarrow> gd c p \<le> rangeKm q * 1000)) rs"
    by (intro filter_within_range_nearby) simp_all
  then show "mset (filteredReports gd q rs)
        = mset (filter (\<lambda>r. matches_search q r \<and>
                  (case pos r of None \<Rightarrow> True | Some p \<Rightarrow> gd c p \<le> rangeKm q * 1000)) rs)"
    by (simp only: filteredReports_def mset_sort_cmp)
next
  assume "sortMode q \<noteq> ''nearby''"
  then have "filter (within_range gd q) (filter (matches_search q) rs)
     = filter (matches_search q) rs"
    by (rule filter_within_range_unbounded)
  then show "mset (filteredReports gd q rs) = mset (filter (matches_search q) rs)"
    by (simp only: filteredReports_def mset_sort_cmp)
qed

theorem nearby_view_retains_witness:
  "sortMode sample_view = ''nearby'' \<and> mapCenter sample_view = Some origin \<and>
   mset (filteredReports (\<lambda>a b. 1500) sample_view
          [sample_report ''r1'' (Some origin) ''Low'' 0 None]) = {#} \<and>
   sortMode (sample_view\<lparr>sortMode := ''worldwide''\<rparr>) = ''worldwide'' \<and>
   mset (filteredReports (\<lambda>a b. 1500) (sample_view\<lparr>sortMode := ''worldwide''\<rparr>)
          [sample_report ''r1'' (Some origin) ''Low'' 0 None])
     = {#sample_report ''r1'' (Some origin) ''Low'' 0 None#}"
  using nearby_view_retains [of sample_view origin "\<lambda>a b. 1500"
          "[sample_report ''r1'' (Some origin) ''Low'' 0 None]"]
        nearby_view_retains [of "sample_view\<lparr>sortMode := ''worldwide''\<rparr>" origin "\<lambda>a b. 1500"
          "[sample_report ''r1'' (Some origin) ''Low'' 0 None]"]
  by (simp add: matches_search_def sample_view_def sample_report_def toLowerCase_def)

section \<open>The view as a projection\<close>

lemma filteredReports_heap_eq:
  assumes "reports < length h"
  shows "filteredReports_heap gd q reports h
         = (Suc (length h),
            h @ [filter (matches_search q) (h ! reports), filteredReports gd q (h ! reports)])"
  using assms
  by (simp add: filteredReports_heap_def Array_filter_def alloc_def Array_sort_def
      filteredReports_def nth_append list_update_append)

text \<open>
  C9. Computing the view from the array \<open>reports\<close> of a store leaves that array, and every
  array that existed before, as it was: the filters allocate new arrays and the sort
  works on the newest. The view is the projection of the contents of \<open>reports\<close>, and
  computing it again in the store the first computation left gives the same sequence.
\<close>

theorem view_is_pure_projection:
  "reports < length h \<Longrightarrow>
   (case filteredReports_heap gd q reports h of
      (v, h') \<Rightarrow>
        h' ! reports = h ! reports \<and> take (length h) h' = h \<and>
        length h \<le> v \<and> v < length h' \<and>
        h' ! v = filteredReports gd q (h ! reports) \<and>
        (case filteredReports_heap gd q reports h' of
           (v', h'') \<Rightarrow>
             h'' ! v' = h' ! v \<and> h'' ! reports = h ! reports \<and> take (length h) h'' = h))"
proof -
  assume lt: "reports < length h"
  let ?h' = "h @ [filter (matches_search q) (h ! reports), filteredReports gd q (h ! reports)]"
  have first: "filteredReports_heap gd q reports h = (Suc (length h), ?h')"
    using lt by (rule filteredReports_heap_eq)
  have lt': "reports < length ?h'" using lt by simp
  have same: "?h' ! reports = h ! reports" using lt by (simp add: nth_append)
  have second: "filteredReports_heap gd q reports ?h'
      = (Suc (length ?h'),
         ?h' @ [filter (matches_search q) (h ! reports), filteredReports gd q (h ! reports)])"
    using filteredReports_heap_eq [OF lt', of gd q] by (simp only: same)
  show ?thesis
    using lt by (simp add: first second nth_append)
qed

theorem view_is_pure_projection_witness:
  "(0::nat) < length [[sample_report ''a'' (Some origin) ''Low'' 2 None,
                       sample_report ''b'' (Some origin) ''Low'' 5 None]] \<and>
   (case filteredReports_heap (\<lambda>a b. 0) sample_view 0
           [[sample_report ''a'' (Some origin) ''Low'' 2 None,
             sample_report ''b'' (Some origin) ''Low'' 5 None]] of
      (v, h') \<Rightarrow>
        h' ! 0 = [sample_report ''a'' (Some origin) ''Low'' 2 None,
                  sample_report ''b'' (Some origin) ''Low'' 5 None] \<and>
        h' ! v = [sample_report ''b'' (Some origin) ''Low'' 5 None,
                  sample_report ''a'' (Some origin) ''Low'' 2 None])"
  using view_is_pure_projection [of 0
          "[[sample_report ''a'' (Some origin) ''Low'' 2 None,
             sample_report ''b'' (Some origin) ''Low'' 5 None]]" "\<lambda>a b. 0" sample_view]
  by (simp add: filteredReports_def sort_cmp_def SortCompare_def compare_reports_def
      within_range_def matches_search_def sample_view_def sample_report_def toLowerCase_def
      origin_def split: prod.splits)

section \<open>Votes\<close>

text \<open>
  C1. The claim asks that a second vote of the same user on the same report is rejected
  and changes nothing. \<^verbatim>\<open>handleVote\<close> has no such check: called twice, it commits twice
  and the report's \<^verbatim>\<open>votes.up\<close> goes from 0 to 2. The buttons are disabled by \<open>voted\<close>,
  which still lacks the report until the listener delivers the user's vote document, so
  two clicks before that snapshot both reach \<^verbatim>\<open>handleVote\<close>.
\<close>

theorem double_vote_counted_twice:
  "(case vote_button_click {} True (Some ''u1'') ''r1'' 1 sample_db of
      (d1, o1) \<Rightarrow>
        (case vote_button_click {} True (Some ''u1'') ''r1'' 1 d1 of
           (d2, o2) \<Rightarrow>
             o1 = Committed \<and> o2 = Committed \<and>
             map_option votes (reports_col d1 ''r1'') = Some \<lparr>up = 1, down = 0\<rparr> \<and>
             map_option votes (reports_col d2 ''r1'') = Some \<lparr>up = 2, down = 0\<rparr>)) \<and>
   (case handleVote True (Some ''u1'') ''r1'' 1 sample_db of
      (d1, o1) \<Rightarrow>
        (case handleVote True (Some ''u1'') ''r1'' 1 d1 of
           (d2, o2) \<Rightarrow>
             o2 = Committed \<and> userVotes_col d1 ''u1'' = Some {''r1''} \<and>
             map_option votes (reports_col d2 ''r1'') = Some \<lparr>up = 2, down = 0\<rparr>))"
  by (simp add: vote_button_click_def handleVote_def commit_def sample_db_def sample_data_def
      increment_field_def)

text \<open>What committing the batch of a vote does.\<close>

lemma commit_vote_batch:
  "commit available [UpdateIncrement reportId field, SetMerge uid reportId] d =
     (if available
      then (case reports_col d reportId of
              None \<Rightarrow> None
            | Some r \<Rightarrow>
                Some \<lparr>reports_col = (reports_col d)(reportId \<mapsto> increment_field field r),
                      userVotes_col = (userVotes_col d)(uid \<mapsto>
                        insert reportId (case userVotes_col d uid of None \<Rightarrow> {} | Some s \<Rightarrow> s))\<rparr>)
      else None)"
  by (simp add: commit_def split: option.splits)

text \<open>
  Once the listener has delivered the user's vote document after a committed vote, the
  buttons of that report are disabled and a click changes nothing.
\<close>

lemma handleVote_committed_recorded:
  assumes "handleVote available (Some uid) reportId type d = (d', Committed)"
  shows "\<exists>s. userVotes_col d' uid = Some s \<and> reportId \<in> s"
  using assms
  by (auto simp: handleVote_def commit_vote_batch Let_def split: if_splits option.splits)

lemma vote_button_blocks_after_snapshot:
  assumes "handleVote available (Some uid) reportId type d = (d', Committed)"
  shows "vote_button_click (votes_snapshot d' uid voted) available' (Some uid) reportId type' d'
         = (d', Disabled)"
proof -
  from handleVote_committed_recorded [OF assms]
  obtain s where "userVotes_col d' uid = Some s" and "reportId \<in> s" by blast
  then show ?thesis
    by (simp add: vote_button_click_def votes_snapshot_def)
qed

text \<open>
  C5. Every call of \<^verbatim>\<open>handleVote\<close> ends in one of two ways. Either the batch was
  committed: the report exists, the count of the chosen direction is up by exactly 1, the
  other count is as before, and the report id is in the user's vote document. Or nothing
  was written (no user, the backend rejected the commit, or the report does not exist):
  the database is as it was. No outcome has one of the two writes without the other.
\<close>

theorem vote_all_or_nothing:
  "(case handleVote available user reportId type d of
      (d', out) \<Rightarrow>
        (out = Committed \<and>
         (\<exists>uid r r'. user = Some uid \<and>
            reports_col d reportId = Some r \<and> reports_col d' reportId = Some r' \<and>
            (if type = 1
             then up (votes r') = up (votes r) + 1 \<and> down (votes r') = down (votes r)
             else down (votes r') = down (votes r) + 1 \<and> up (votes r') = up (votes r)) \<and>
            (\<exists>s. userVotes_col d' uid = Some s \<and> reportId \<in> s)))
        \<or> (out \<in> {LoginAlert, VoteFailed} \<and> d' = d))"
proof (cases user)
  case None
  then show ?thesis by (simp add: handleVote_def)
next
  case (Some uid)
  show ?thesis
  proof (cases "uid = [] \<or> \<not> available \<or> reports_col d reportId = None")
    case True
    then show ?thesis
      using Some by (auto simp: handleVote_def commit_vote_batch Let_def)
  next
    case False
    then obtain r where r: "reports_col d reportId = Some r" by auto
    with False Some show ?thesis
      by (simp add: handleVote_def commit_vote_batch Let_def increment_field_def)
  qed
qed

section \<open>Classification\<close>

text \<open>
  C7. The claim asks that the category stored with a new report is one of Severe,
  Moderate, Low, Uncategorized. \<^verbatim>\<open>generateSeverity\<close> returns the trimmed answer of the
  model unchecked: when the model answers \<^verbatim>\<open>High\<close>, the category is \<^verbatim>\<open>High\<close>, and the
  submission stores it.
\<close>

theorem category_outside_enum:
  "generateSeverity (\<lambda>t d. Some ''High'') ''Fallen tree'' ''A tree blocks the road'' = ''High'' \<and>
   ''High'' \<notin> {''Severe'', ''Moderate'', ''Low'', ''Uncategorized''} \<and>
   map_option category
     (reports_col (fst (handleSubmit (\<lambda>t d. Some ''High'') (Some ''n1'') True
        ''2025-01-01T00:00:00.000Z'' origin sample_form sample_db)) ''n1'') = Some ''High''"
  by (simp add: generateSeverity_def trim_def is_space_def handleSubmit_def sample_form_def
      initial_form_def addDataToFirestore_def setDataToFirestore_def Let_def)

lemma generateSeverity_failure:
  "model t d = None \<Longrightarrow> generateSeverity model t d = ''Uncategorized''"
  by (simp add: generateSeverity_def)

lemma trim_Uncategorized: "trim ''Uncategorized'' = ''Uncategorized''"
  by (simp add: trim_def is_space_def)

text \<open>
  C8. When the classifier fails, the classification step yields Uncategorized, and the
  submission goes on exactly as it does with a classifier that answers Uncategorized: for
  a title and a description that are not blank and a backend that accepts the new
  document, the report is created with the category Uncategorized.
\<close>

theorem classifier_failure_absorbed:
  "model (st_title f) (st_description f) = None \<Longrightarrow>
     generateSeverity model (st_title f) (st_description f) = ''Uncategorized'' \<and>
     handleSubmit model new_id set_ok now position f d
       = handleSubmit (\<lambda>t d. Some ''Uncategorized'') new_id set_ok now position f d \<and>
     (trim (st_title f) \<noteq> [] \<and> trim (st_description f) \<noteq> [] \<and> new_id = Some i \<longrightarrow>
        (\<exists>data. snd (handleSubmit model new_id set_ok now position f d) = Submitted i data \<and>
           category data = ''Uncategorized'' \<and>
           reports_col (fst (handleSubmit model new_id set_ok now position f d)) i = Some data))"
proof -
  assume fail: "model (st_title f) (st_description f) = None"
  have sev: "generateSeverity model (st_title f) (st_description f) = ''Uncategorized''"
    using fail by (rule generateSeverity_failure)
  have sev': "generateSeverity (\<lambda>t d. Some ''Uncategorized'') (st_title f) (st_description f)
      = ''Uncategorized''"
    by (simp add: generateSeverity_def trim_Uncategorized)
  have same: "handleSubmit model new_id set_ok now position f d
       = handleSubmit (\<lambda>t d. Some ''Uncategorized'') new_id set_ok now position f d"
    by (simp only: handleSubmit_def sev sev')
  have created: "trim (st_title f) \<noteq> [] \<and> trim (st_description f) \<noteq> [] \<and> new_id = Some i \<longrightarrow>
        (\<exists>data. snd (handleSubmit model new_id set_ok now position f d) = Submitted i data \<and>
           category data = ''Uncategorized'' \<and>
           reports_col (fst (handleSubmit model new_id set_ok now position f d)) i = Some data)"
    by (simp add: handleSubmit_def sev addDataToFirestore_def setDataToFirestore_def Let_def)
  from sev same created show ?thesis by blast
qed

theorem classifier_failure_absorbed_witness:
  "(\<lambda>t d. None :: string option) (st_title sample_form) (st_description sample_form) = None \<and>
   snd (handleSubmit (\<lambda>t d. None) (Some ''n1'') True ''2025-01-01T00:00:00.000Z'' origin
          sample_form sample_db)
     = Submitted ''n1'' \<lparr>pos = Some origin, title = ''Flooded street'',
         desc = ''Water on the road'', category = ''Uncategorized'',
         votes = \<lparr>up = 0, down = 0\<rparr>, radius = Some 500, crimeProb = Some 0,
         createdAt = ''2025-01-01T00:00:00.000Z''\<rparr>"
  using classifier_failure_absorbed [of "\<lambda>t d. None" sample_form "Some ''n1''" True
          "''2025-01-01T00:00:00.000Z''" origin sample_db "''n1''"]
  by (simp add: handleSubmit_def generateSeverity_def trim_def is_space_def sample_form_def
      initial_form_def addDataToFirestore_def setDataToFirestore_def Let_def origin_def)

section \<open>The crime probability of a new report\<close>

text \<open>No setter of the form changes the crime rate from 0.\<close>

lemma reachable_crimeRate: "reachable f \<Longrightarrow> st_crimeRate f = 0"
proof (induction rule: reachable.induct)
  case initial
  show ?case by (simp add: initial_form_def)
next
  case (step f e)
  then show ?case by (cases e) simp_all
qed

text \<open>
  C10. In every state the form can reach, a submission stores the crime probability 0:
  the record of a created report has \<^verbatim>\<open>crimeProb\<close> 0, whatever the title, the
  description, the radius and the position, and every document of the collection that the
  submission touches has it.
\<close>

theorem created_crimeProb_zero:
  "reachable f \<Longrightarrow>
   (case handleSubmit model new_id set_ok now position f d of
      (d', out) \<Rightarrow>
        (\<forall>i data. out = Submitted i data \<longrightarrow>
           crimeProb data = Some 0 \<and> reports_col d' i = Some data) \<and>
        (\<forall>j. reports_col d' j = reports_col d j \<or>
             map_option crimeProb (reports_col d' j) = Some (Some 0)))"
proof -
  assume "reachable f"
  then have zero: "st_crimeRate f = 0" by (rule reachable_crimeRate)
  show ?thesis
    by (cases new_id)
       (simp_all add: handleSubmit_def addDataToFirestore_def setDataToFirestore_def Let_def zero)
qed

theorem created_crimeProb_zero_witness:
  "reachable sample_form \<and>
   map_option crimeProb
     (reports_col (fst (handleSubmit (\<lambda>t d. Some ''Severe'') (Some ''n1'') True
        ''2025-01-01T00:00:00.000Z'' origin sample_form sample_db)) ''n1'') = Some (Some 0)"
proof -
  have r: "reachable sample_form"
    unfolding sample_form_def by (intro reachable.step reachable.initial)
  show ?thesis
    using r created_crimeProb_zero [OF r, where model = "\<lambda>t d. Some ''Severe''"
          and new_id = "Some ''n1''" and set_ok = True and now = "''2025-01-01T00:00:00.000Z''"
          and position = origin and d = sample_db]
    by (simp add: handleSubmit_def generateSeverity_def trim_def is_space_def sample_form_def
      initial_form_def addDataToFirestore_def setDataToFirestore_def Let_def)
qed

end
